theory Spec2Isabelle
  imports Main
begin

section \<open>JavaScript values\<close>

text \<open>
  The handlers receive their batch as \<^verbatim>\<open>any[]\<close> and read the fields of whatever
  \<^verbatim>\<open>JSON.parse\<close> returns, so the model works on untyped JavaScript values. Numbers are
  modelled as integers: \<^verbatim>\<open>NaN\<close>, infinities and fractions are not represented. An object is
  the list of its members in insertion order.
\<close>

datatype jsval =
    JUndefined
  | JNull
  | JBool bool
  | JNum int
  | JStr string
  | JArr "jsval list"
  | JObj "(string \<times> jsval) list"

text \<open>ToBoolean: what \<^verbatim>\<open>!v\<close> negates.\<close>

fun truthy :: "jsval \<Rightarrow> bool" where
  "truthy JUndefined = False"
| "truthy JNull = False"
| "truthy (JBool b) = b"
| "truthy (JNum n) = (n \<noteq> 0)"
| "truthy (JStr s) = (s \<noteq> [])"
| "truthy (JArr xs) = True"
| "truthy (JObj fs) = True"

text \<open>
  Reading a property \<^verbatim>\<open>v.k\<close> of a value that is neither \<^verbatim>\<open>null\<close> nor \<^verbatim>\<open>undefined\<close>.
  When a key is repeated the last member wins, as in an object built by \<^verbatim>\<open>JSON.parse\<close>.
  The only keys the program reads are \<^verbatim>\<open>type\<close>, \<^verbatim>\<open>fromAccount\<close>, \<^verbatim>\<open>toAccount\<close> and
  \<^verbatim>\<open>amount\<close>; no primitive or array has a property of these names.
\<close>

fun getp :: "jsval \<Rightarrow> string \<Rightarrow> jsval" where
  "getp (JObj fs) k = (case map_of (rev fs) k of Some v \<Rightarrow> v | None \<Rightarrow> JUndefined)"
| "getp v k = JUndefined"

text \<open>
  A destructuring pattern \<^verbatim>\<open>const { a, b, c } = v\<close> throws a TypeError when \<^verbatim>\<open>v\<close> is
  \<^verbatim>\<open>null\<close> or \<^verbatim>\<open>undefined\<close>, and reads the properties otherwise.
\<close>

definition nullish :: "jsval \<Rightarrow> bool" where
  "nullish v = (v = JUndefined \<or> v = JNull)"

datatype jserr = SyntaxError | TypeError | BusError

section \<open>Conversion to string\<close>

text \<open>The decimal digits of a number, as \<^verbatim>\<open>String(n)\<close> and \<^verbatim>\<open>JSON.stringify(n)\<close> print an integer.\<close>

function digits_of :: "nat \<Rightarrow> string" where
  "digits_of n =
     (if n < 10 then [char_of (48 + n)] else digits_of (n div 10) @ [char_of (48 + n mod 10)])"
  by pat_completeness auto
termination
  by (relation "measure id") auto

declare digits_of.simps [simp del]

definition show_int :: "int \<Rightarrow> string" where
  "show_int i = (if i < 0 then CHR ''-'' # digits_of (nat (- i)) else digits_of (nat i))"

fun join :: "string \<Rightarrow> string list \<Rightarrow> string" where
  "join sep [] = []"
| "join sep [x] = x"
| "join sep (x # y # ys) = x @ sep @ join sep (y # ys)"

text \<open>
  ToString, which a template literal applies to each \<^verbatim>\<open>${...}\<close> and \<^verbatim>\<open>JSON.parse\<close> to
  an argument that is not a string; \<open>None\<close> is a thrown TypeError. An array prints its
  elements, \<^verbatim>\<open>null\<close> and \<^verbatim>\<open>undefined\<close> as the empty string, separated by commas. An
  object has no function among its members (it is built by \<^verbatim>\<open>JSON.parse\<close> or by an object
  literal of data), so a member named \<^verbatim>\<open>toString\<close> hides \<^verbatim>\<open>Object.prototype.toString\<close>
  with a value that cannot be called, \<^verbatim>\<open>valueOf\<close> yields no primitive either, and the
  conversion throws; without such a member the object prints as \<^verbatim>\<open>[object Object]\<close>.
\<close>

fun toString :: "jsval \<Rightarrow> string option"
  and toString_elements :: "jsval list \<Rightarrow> string list option"
where
  "toString JUndefined = Some ''undefined''"
| "toString JNull = Some ''null''"
| "toString (JBool b) = Some (if b then ''true'' else ''false'')"
| "toString (JNum n) = Some (show_int n)"
| "toString (JStr s) = Some s"
| "toString (JArr xs) = map_option (join '','') (toString_elements xs)"
| "toString (JObj fs) =
     (if ''toString'' \<in> set (map fst fs) then None else Some ''[object Object]'')"
| "toString_elements [] = Some []"
| "toString_elements (x # xs) =
     (case (if x = JUndefined \<or> x = JNull then Some [] else toString x) of
        None \<Rightarrow> None
      | Some t \<Rightarrow> map_option ((#) t) (toString_elements xs))"

section \<open>The environment and the state of an invocation\<close>

text \<open>
  What the handlers call but do not define is an input of the model:
  \<^item> \<open>JSON_parse m\<close> is the result of \<^verbatim>\<open>JSON.parse(m)\<close>: \<open>Inr\<close> the value, or \<open>Inl\<close>
    the error it throws;
  \<^item> \<open>random_gt k\<close> is the value of \<^verbatim>\<open>Math.random() > 0.2\<close> at the \<open>k\<close>-th draw;
  \<^item> \<open>sendBatch_ok k\<close> says whether the \<open>k\<close>-th call of \<^verbatim>\<open>sendBatch\<close> resolves
    (otherwise it rejects, and \<^verbatim>\<open>await\<close> throws).
\<close>

record env =
  JSON_parse :: "jsval \<Rightarrow> jserr + jsval"
  random_gt :: "nat \<Rightarrow> bool"
  sendBatch_ok :: "nat \<Rightarrow> bool"

datatype logarg = V jsval | E jserr

datatype logentry =
    LogInfo string "logarg list"
  | LogError string "logarg list"

text \<open>
  The bodies of the three responses of the HTTP trigger:
  \<^verbatim>\<open>"Faltando propriedades obrigatorias na requisicao."\<close>, \<^verbatim>\<open>"Transacao iniciada."\<close> and
  \<^verbatim>\<open>"Erro ao iniciar a transacao."\<close> (with their diacritics in the source).
\<close>

datatype resbody = MissingProperties | TransactionStarted | StartFailed

record response =
  res_status :: nat
  res_body :: resbody

text \<open>
  The observable state: the events the bus accepted (\<open>published\<close>), the argument of every
  \<^verbatim>\<open>sendBatch\<close> call made, accepted or not (\<open>calls\<close>), the number of random draws, the
  number of producer clients constructed and of \<^verbatim>\<open>close()\<close> calls, the log of the
  context, and \<^verbatim>\<open>context.res\<close>.
\<close>

record state =
  published :: "jsval list"
  calls :: "jsval list list"
  randoms :: nat
  opens :: nat
  closes :: nat
  logs :: "logentry list"
  res :: "response option"

definition log_info :: "state \<Rightarrow> string \<Rightarrow> logarg list \<Rightarrow> state" where
  "log_info s msg args = s\<lparr>logs := logs s @ [LogInfo msg args]\<rparr>"

definition log_error :: "state \<Rightarrow> string \<Rightarrow> logarg list \<Rightarrow> state" where
  "log_error s msg args = s\<lparr>logs := logs s @ [LogError msg args]\<rparr>"

text \<open>
  \<^verbatim>\<open>new EventHubProducerClient(...)\<close> and \<^verbatim>\<open>await producerClient.close()\<close>, counted.
  A constructor that throws (no handle is acquired then) and a \<^verbatim>\<open>close()\<close> that rejects
  are not modelled.
\<close>

definition newProducerClient :: "state \<Rightarrow> state" where
  "newProducerClient s = s\<lparr>opens := Suc (opens s)\<rparr>"

definition close :: "state \<Rightarrow> state" where
  "close s = s\<lparr>closes := Suc (closes s)\<rparr>"

text \<open>
  \<^verbatim>\<open>await producerClient.sendBatch(events)\<close>: the call is recorded; the events reach the
  bus when the call resolves, and the await throws when it rejects.
\<close>

definition sendBatch :: "env \<Rightarrow> state \<Rightarrow> jsval list \<Rightarrow> jserr option \<times> state" where
  "sendBatch env s events =
     (let k = length (calls s);
          s' = s\<lparr>calls := calls s @ [events]\<rparr>
      in if sendBatch_ok env k
         then (None, s'\<lparr>published := published s' @ events\<rparr>)
         else (Some BusError, s'))"

text \<open>
  How one iteration of a \<^verbatim>\<open>for ... of\<close> body ends: it goes on to the next message
  (falling off the end or \<^verbatim>\<open>continue\<close>), it returns from the handler, or it throws.
\<close>

datatype 'a ctl = Next 'a | Return 'a | Throw jserr 'a

fun forOf :: "('s \<Rightarrow> 'm \<Rightarrow> 's ctl) \<Rightarrow> 's \<Rightarrow> 'm list \<Rightarrow> 's ctl" where
  "forOf body s [] = Next s"
| "forOf body s (m # ms) =
     (case body s m of
        Next s' \<Rightarrow> forOf body s' ms
      | Return s' \<Rightarrow> Return s'
      | Throw e s' \<Rightarrow> Throw e s')"

text \<open>The state in which an iteration, or the loop, ends.\<close>

fun the_state :: "'a ctl \<Rightarrow> 'a" where
  "the_state (Next s) = s"
| "the_state (Return s) = s"
| "the_state (Throw e s) = s"

section \<open>DepositFunds\<close>

text \<open>
  The body of the loop of \<^verbatim>\<open>src/DepositFunds/index.ts\<close>, lines 17 to 67. The
  destructuring of line 31 and the template literal of line 42 stand outside the inner
  \<^verbatim>\<open>try\<close> blocks, so their TypeError leaves the loop: the first when the document is
  \<^verbatim>\<open>null\<close>, the second when \<^verbatim>\<open>amount\<close> or \<^verbatim>\<open>toAccount\<close> cannot be converted to a
  string. The log line keeps the template and the values it interpolates.
\<close>

definition depositMessage :: "env \<Rightarrow> state \<Rightarrow> jsval \<Rightarrow> state ctl" where
  "depositMessage env s message =
     (if \<not> truthy message
      then Next (log_error s ''DepositFunds: Invalid or undefined message body:'' [V message])
      else (case JSON_parse env message of
        Inl err \<Rightarrow> Next (log_error s ''DepositFunds: Error parsing message:'' [E err])
      | Inr parsedMessage \<Rightarrow>
          if nullish parsedMessage then Throw TypeError s
          else
            let toAccount = getp parsedMessage ''toAccount'';
                amount = getp parsedMessage ''amount'';
                type = getp parsedMessage ''type''
            in if type \<noteq> JStr ''StartTransfer'' then Next s
               else if \<not> truthy toAccount \<or> \<not> truthy amount
               then Next (log_error s ''DepositFunds: Missing required properties in message:''
                            [V parsedMessage])
               else if toString amount = None \<or> toString toAccount = None
               then Throw TypeError s
               else
                 let s1 = log_info s ''DepositFunds: Initiating deposit of ${amount} to ${toAccount}''
                            [V amount, V toAccount];
                     success = random_gt env (randoms s1);
                     s2 = s1\<lparr>randoms := Suc (randoms s1)\<rparr>
                 in if success
                    then
                      (let event = JObj [(''type'', JStr ''DepositCompleted''),
                                         (''toAccount'', toAccount), (''amount'', amount)]
                       in (case sendBatch env s2 [event] of
                             (None, s3) \<Rightarrow> Next (log_info s3 ''DepositFunds: Deposit succeeded.'' [])
                           | (Some eventError, s3) \<Rightarrow>
                               Next (log_error s3 ''DepositFunds: Error sending event for account ${toAccount}:''
                                       [V toAccount, E eventError])))
                    else
                      (let event = JObj [(''type'', JStr ''DepositCompensation''),
                                         (''toAccount'', toAccount), (''amount'', amount)]
                       in (case sendBatch env s2 [event] of
                             (None, s3) \<Rightarrow> Next (log_error s3 ''DepositFunds: Deposit failed. Compensation event emitted.'' [])
                           | (Some eventError, s3) \<Rightarrow>
                               Next (log_error s3 ''DepositFunds: Error sending event for account ${toAccount}:''
                                       [V toAccount, E eventError])))))"

text \<open>
  The handler. A batch that cannot be iterated (\<open>None\<close>) makes \<^verbatim>\<open>for ... of\<close> throw a
  TypeError inside the outer \<^verbatim>\<open>try\<close>; \<^verbatim>\<open>finally\<close> runs on every way out of it.
\<close>

definition eventHubTrigger_DepositFunds :: "env \<Rightarrow> state \<Rightarrow> jsval list option \<Rightarrow> state" where
  "eventHubTrigger_DepositFunds env s eventHubMessages =
     (let s0 = newProducerClient s;
          s1 = (case (case eventHubMessages of
                        None \<Rightarrow> Throw TypeError s0
                      | Some ms \<Rightarrow> forOf (depositMessage env) s0 ms) of
                  Next s' \<Rightarrow> s'
                | Return s' \<Rightarrow> s'
                | Throw error s' \<Rightarrow>
                    log_error s' ''DepositFunds: Error processing messages:'' [E error])
      in close s1)"

section \<open>WithdrawFunds\<close>

text \<open>
  The body of the loop of \<^verbatim>\<open>src/unnamed/part_002\<close>, lines 17 to 67. Line 39 is a
  \<^verbatim>\<open>return\<close> where DepositFunds has a \<^verbatim>\<open>continue\<close>, and line 38 logs the raw message.
  The template literal of line 42 throws as in DepositFunds.
\<close>

definition withdrawMessage :: "env \<Rightarrow> state \<Rightarrow> jsval \<Rightarrow> state ctl" where
  "withdrawMessage env s message =
     (if \<not> truthy message
      then Next (log_error s ''WithdrawFunds: Invalid or undefined message body:'' [V message])
      else (case JSON_parse env message of
        Inl err \<Rightarrow> Next (log_error s ''WithdrawFunds: Error parsing message:'' [E err])
      | Inr parsedMessage \<Rightarrow>
          if nullish parsedMessage then Throw TypeError s
          else
            let fromAccount = getp parsedMessage ''fromAccount'';
                amount = getp parsedMessage ''amount'';
                type = getp parsedMessage ''type''
            in if type \<noteq> JStr ''StartTransfer'' then Next s
               else if \<not> truthy fromAccount \<or> \<not> truthy amount
               then Return (log_error s ''WithdrawFunds: Missing required properties in message:''
                            [V message])
               else if toString amount = None \<or> toString fromAccount = None
               then Throw TypeError s
               else
                 let s1 = log_info s ''WithdrawFunds: Initiating withdrawal of ${amount} from ${fromAccount}''
                            [V amount, V fromAccount];
                     success = random_gt env (randoms s1);
                     s2 = s1\<lparr>randoms := Suc (randoms s1)\<rparr>
                 in if success
                    then
                      (let event = JObj [(''type'', JStr ''WithdrawCompleted''),
                                         (''fromAccount'', fromAccount), (''amount'', amount)]
                       in (case sendBatch env s2 [event] of
                             (None, s3) \<Rightarrow> Next (log_info s3 ''WithdrawFunds: Withdrawal succeeded.'' [])
                           | (Some eventError, s3) \<Rightarrow>
                               Next (log_error s3 ''WithdrawFunds: Error sending event for account ${fromAccount}:''
                                       [V fromAccount, E eventError])))
                    else
                      (let event = JObj [(''type'', JStr ''WithdrawCompensation''),
                                         (''fromAccount'', fromAccount), (''amount'', amount)]
                       in (case sendBatch env s2 [event] of
                             (None, s3) \<Rightarrow> Next (log_error s3 ''WithdrawFunds: Withdrawal failed. Compensation event emitted.'' [])
                           | (Some eventError, s3) \<Rightarrow>
                               Next (log_error s3 ''WithdrawFunds: Error sending event for account ${fromAccount}:''
                                       [V fromAccount, E eventError])))))"

text \<open>
  The handler. A batch that cannot be iterated (\<open>None\<close>) makes \<^verbatim>\<open>for ... of\<close> throw a
  TypeError inside the outer \<^verbatim>\<open>try\<close>; \<^verbatim>\<open>finally\<close> runs on every way out of it.
\<close>

definition eventHubTrigger_WithdrawFunds :: "env \<Rightarrow> state \<Rightarrow> jsval list option \<Rightarrow> state" where
  "eventHubTrigger_WithdrawFunds env s eventHubMessages =
     (let s0 = newProducerClient s;
          s1 = (case (case eventHubMessages of
                        None \<Rightarrow> Throw TypeError s0
                      | Some ms \<Rightarrow> forOf (withdrawMessage env) s0 ms) of
                  Next s' \<Rightarrow> s'
                | Return s' \<Rightarrow> s'
                | Throw error s' \<Rightarrow>
                    log_error s' ''WithdrawFunds: Error processing messages:'' [E error])
      in close s1)"

section \<open>CompensateDeposit\<close>

text \<open>
  \<^verbatim>\<open>src/unnamed/part_001\<close>: the body of the loop (lines 8 to 36) and the handler. It has no
  producer client; it reads \<^verbatim>\<open>toAccount\<close> and \<^verbatim>\<open>amount\<close>, and the reversal it performs
  is the log line of line 35, whose template literal throws when one of the two cannot be
  converted to a string.
\<close>

definition compensateDepositMessage :: "env \<Rightarrow> state \<Rightarrow> jsval \<Rightarrow> state ctl" where
  "compensateDepositMessage env s message =
     (if \<not> truthy message
      then Next (log_error s ''CompensateDeposit: Invalid or undefined message body:'' [V message])
      else (case JSON_parse env message of
        Inl err \<Rightarrow> Next (log_error s ''CompensateDeposit: Error parsing message:'' [E err])
      | Inr parsedMessage \<Rightarrow>
          if nullish parsedMessage then Throw TypeError s
          else
            let toAccount = getp parsedMessage ''toAccount'';
                amount = getp parsedMessage ''amount'';
                type = getp parsedMessage ''type''
            in if type \<noteq> JStr ''DepositCompensation'' then Next s
               else if \<not> truthy toAccount \<or> \<not> truthy amount
               then Next (log_error s ''CompensateDeposit: Missing required properties in message:''
                            [V parsedMessage])
               else if toString amount = None \<or> toString toAccount = None
               then Throw TypeError s
               else Next (log_info s ''CompensateDeposit: Reverting deposit of ${amount} from ${toAccount}''
                            [V amount, V toAccount])))"

definition eventHubTrigger_CompensateDeposit :: "env \<Rightarrow> state \<Rightarrow> jsval list option \<Rightarrow> state" where
  "eventHubTrigger_CompensateDeposit env s eventHubMessages =
     (case (case eventHubMessages of
              None \<Rightarrow> Throw TypeError s
            | Some ms \<Rightarrow> forOf (compensateDepositMessage env) s ms) of
        Next s' \<Rightarrow> s'
      | Return s' \<Rightarrow> s'
      | Throw error s' \<Rightarrow>
          log_error s' ''CompensateDeposit: Error processing messages:'' [E error])"

section \<open>CompensateWithdraw\<close>

text \<open>
  \<^verbatim>\<open>src/CompensateWithdraw/index.ts\<close>: the body of the loop (lines 8 to 36) and the handler. It has no
  producer client; it reads \<^verbatim>\<open>toAccount\<close> and \<^verbatim>\<open>amount\<close>, and the reversal it performs
  is the log line of line 35, whose template literal throws when one of the two cannot be
  converted to a string.
\<close>

definition compensateWithdrawMessage :: "env \<Rightarrow> state \<Rightarrow> jsval \<Rightarrow> state ctl" where
  "compensateWithdrawMessage env s message =
     (if \<not> truthy message
      then Next (log_error s ''CompensateWithdraw: Invalid or undefined message body:'' [V message])
      else (case JSON_parse env message of
        Inl err \<Rightarrow> Next (log_error s ''CompensateWithdraw: Error parsing message:'' [E err])
      | Inr parsedMessage \<Rightarrow>
          if nullish parsedMessage then Throw TypeError s
          else
            let toAccount = getp parsedMessage ''toAccount'';
                amount = getp parsedMessage ''amount'';
                type = getp parsedMessage ''type''
            in if type \<noteq> JStr ''WithdrawCompensation'' then Next s
               else if \<not> truthy toAccount \<or> \<not> truthy amount
               then Next (log_error s ''CompensateWithdraw: Missing required properties in message:''
                            [V parsedMessage])
               else if toString amount = None \<or> toString toAccount = None
               then Throw TypeError s
               else Next (log_info s ''CompensateWithdraw: Reverting deposit of ${amount} from ${toAccount}''
                            [V amount, V toAccount])))"

definition eventHubTrigger_CompensateWithdraw :: "env \<Rightarrow> state \<Rightarrow> jsval list option \<Rightarrow> state" where
  "eventHubTrigger_CompensateWithdraw env s eventHubMessages =
     (case (case eventHubMessages of
              None \<Rightarrow> Throw TypeError s
            | Some ms \<Rightarrow> forOf (compensateWithdrawMessage env) s ms) of
        Next s' \<Rightarrow> s'
      | Return s' \<Rightarrow> s'
      | Throw error s' \<Rightarrow>
          log_error s' ''CompensateWithdraw: Error processing messages:'' [E error])"

section \<open>The transfer initiator\<close>

text \<open>
  \<^verbatim>\<open>httpTrigger\<close> of \<^verbatim>\<open>src/unnamed/part_000\<close>. Its argument is \<^verbatim>\<open>req.body\<close>,
  \<open>JUndefined\<close> when the request has none. The producer client is the module's, made once
  and never closed. The result is the exception that leaves the handler, if any, and the
  state.
\<close>

definition httpTrigger :: "env \<Rightarrow> state \<Rightarrow> jsval \<Rightarrow> jserr option \<times> state" where
  "httpTrigger env s req_body =
     (if nullish req_body then (Some TypeError, s)
      else
        let fromAccount = getp req_body ''fromAccount'';
            toAccount = getp req_body ''toAccount'';
            amount = getp req_body ''amount''
        in if \<not> truthy fromAccount \<or> \<not> truthy toAccount \<or> \<not> truthy amount
           then
             (let s1 = log_error s ''ClientFunction: Missing required properties in message:''
                         [V req_body]
              in (None, s1\<lparr>res := Some \<lparr>res_status = 400, res_body = MissingProperties\<rparr>\<rparr>))
           else
             let event = JObj [(''type'', JStr ''StartTransfer''), (''fromAccount'', fromAccount),
                               (''toAccount'', toAccount), (''amount'', amount)]
             in (case sendBatch env s [event] of
                   (None, s1) \<Rightarrow>
                     (None, s1\<lparr>res := Some \<lparr>res_status = 202, res_body = TransactionStarted\<rparr>\<rparr>)
                 | (Some error, s1) \<Rightarrow>
                     (let s2 = log_error s1 ''Failed to send event to Event Hub:'' [E error]
                      in (None, s2\<lparr>res := Some \<lparr>res_status = 500, res_body = StartFailed\<rparr>\<rparr>))))"

section \<open>A model of the JSON built-ins, for concrete runs\<close>

text \<open>
  The handlers above take \<^verbatim>\<open>JSON.parse\<close> as an input, and the general theorems hold for
  whatever it returns. To run the handlers on concrete message texts, this section gives an
  executable model of \<^verbatim>\<open>JSON.parse\<close> and \<^verbatim>\<open>JSON.stringify\<close> on a subset of JSON:
  objects, arrays, strings of code units below 256, integer numbers, \<^verbatim>\<open>true\<close>,
  \<^verbatim>\<open>false\<close> and \<^verbatim>\<open>null\<close>.
\<close>

text \<open>JSON white space, skipped between tokens.\<close>

definition is_ws :: "char \<Rightarrow> bool" where
  "is_ws c = (c = CHR '' '' \<or> c = CHR 0x09 \<or> c = CHR 0x0A \<or> c = CHR 0x0D)"

fun skip_ws :: "string \<Rightarrow> string" where
  "skip_ws [] = []"
| "skip_ws (c # cs) = (if is_ws c then skip_ws cs else c # cs)"

definition digit_val :: "char \<Rightarrow> nat option" where
  "digit_val c =
     (let n = (of_char c :: nat) in if 48 \<le> n \<and> n \<le> 57 then Some (n - 48) else None)"

definition hex_val :: "char \<Rightarrow> nat option" where
  "hex_val c =
     (let n = (of_char c :: nat)
      in if 48 \<le> n \<and> n \<le> 57 then Some (n - 48)
         else if 65 \<le> n \<and> n \<le> 70 then Some (n - 55)
         else if 97 \<le> n \<and> n \<le> 102 then Some (n - 87)
         else None)"

fun parse_digits :: "nat \<Rightarrow> string \<Rightarrow> nat \<times> string" where
  "parse_digits acc [] = (acc, [])"
| "parse_digits acc (c # cs) =
     (case digit_val c of
        None \<Rightarrow> (acc, c # cs)
      | Some d \<Rightarrow> parse_digits (10 * acc + d) cs)"

text \<open>
  A number token: an optional minus sign, then \<open>0\<close> or a digit from 1 to 9 followed by
  digits. A fraction or an exponent after it is outside the modelled subset.
\<close>

definition parse_nat :: "string \<Rightarrow> (nat \<times> string) option" where
  "parse_nat cs =
     (case cs of
        [] \<Rightarrow> None
      | c # r \<Rightarrow>
          (case digit_val c of
             None \<Rightarrow> None
           | Some d \<Rightarrow>
               (let (n, r') = (if d = 0 then (0, r) else parse_digits d r)
                in (case r' of
                      [] \<Rightarrow> Some (n, r')
                    | e # _ \<Rightarrow>
                        if e = CHR ''.'' \<or> e = CHR ''e'' \<or> e = CHR ''E'' then None
                        else Some (n, r')))))"

definition parse_number :: "string \<Rightarrow> (jsval \<times> string) option" where
  "parse_number cs =
     (case cs of
        [] \<Rightarrow> None
      | c # r \<Rightarrow>
          if c = CHR ''-''
          then map_option (\<lambda>(n, r'). (JNum (- int n), r')) (parse_nat r)
          else map_option (\<lambda>(n, r'). (JNum (int n), r')) (parse_nat cs))"

text \<open>The character an escape sequence \<^verbatim>\<open>\c\<close> stands for.\<close>

definition unescape :: "char \<Rightarrow> char option" where
  "unescape c =
     (if c = CHR 0x22 then Some (CHR 0x22)
      else if c = CHR 0x5C then Some (CHR 0x5C)
      else if c = CHR ''/'' then Some (CHR ''/'')
      else if c = CHR ''b'' then Some (CHR 0x08)
      else if c = CHR ''f'' then Some (CHR 0x0C)
      else if c = CHR ''n'' then Some (CHR 0x0A)
      else if c = CHR ''r'' then Some (CHR 0x0D)
      else if c = CHR ''t'' then Some (CHR 0x09)
      else None)"

text \<open>
  The characters of a string token after its opening quote, up to the closing quote.
  A \<^verbatim>\<open>\uXXXX\<close> escape is read when it names a code unit below 256.
\<close>

fun parse_chars :: "string \<Rightarrow> (string \<times> string) option" where
  "parse_chars [] = None"
| "parse_chars (c # cs) =
     (if c = CHR 0x22 then Some ([], cs)
      else if c = CHR 0x5C then
        (case cs of
           [] \<Rightarrow> None
         | e # r \<Rightarrow>
             if e = CHR ''u'' then
               (case r of
                  h1 # h2 # h3 # h4 # r' \<Rightarrow>
                    (case (hex_val h1, hex_val h2, hex_val h3, hex_val h4) of
                       (Some 0, Some 0, Some a, Some b) \<Rightarrow>
                         map_option (\<lambda>(s, t). (char_of (16 * a + b) # s, t)) (parse_chars r')
                     | _ \<Rightarrow> None)
                | _ \<Rightarrow> None)
             else
               (case unescape e of
                  None \<Rightarrow> None
                | Some d \<Rightarrow> map_option (\<lambda>(s, t). (d # s, t)) (parse_chars r)))
      else if (of_char c :: nat) < 32 then None
      else map_option (\<lambda>(s, t). (c # s, t)) (parse_chars cs))"

text \<open>
  The recursive descent over values, array elements and object members. The first
  argument bounds the depth of the recursion; \<open>parse_text\<close> starts it above the length
  of the text, and running out of it counts as a syntax error.
\<close>

fun parse_value :: "nat \<Rightarrow> string \<Rightarrow> (jsval \<times> string) option"
  and parse_elements :: "nat \<Rightarrow> jsval list \<Rightarrow> string \<Rightarrow> (jsval \<times> string) option"
  and parse_members :: "nat \<Rightarrow> (string \<times> jsval) list \<Rightarrow> string \<Rightarrow> (jsval \<times> string) option"
where
  "parse_value 0 cs = None"
| "parse_value (Suc n) cs =
     (case skip_ws cs of
        [] \<Rightarrow> None
      | c # r \<Rightarrow>
          if c = CHR ''{'' then
            (case skip_ws r of
               [] \<Rightarrow> None
             | d # r' \<Rightarrow> if d = CHR ''}'' then Some (JObj [], r') else parse_members n [] (d # r'))
          else if c = CHR ''['' then
            (case skip_ws r of
               [] \<Rightarrow> None
             | d # r' \<Rightarrow> if d = CHR '']'' then Some (JArr [], r') else parse_elements n [] (d # r'))
          else if c = CHR 0x22 then map_option (\<lambda>(s, t). (JStr s, t)) (parse_chars r)
          else if take 4 (c # r) = ''true'' then Some (JBool True, drop 3 r)
          else if take 5 (c # r) = ''false'' then Some (JBool False, drop 4 r)
          else if take 4 (c # r) = ''null'' then Some (JNull, drop 3 r)
          else parse_number (c # r))"
| "parse_elements 0 acc cs = None"
| "parse_elements (Suc n) acc cs =
     (case parse_value n cs of
        None \<Rightarrow> None
      | Some (v, r) \<Rightarrow>
          (case skip_ws r of
             [] \<Rightarrow> None
           | c # r' \<Rightarrow>
               if c = CHR '','' then parse_elements n (acc @ [v]) r'
               else if c = CHR '']'' then Some (JArr (acc @ [v]), r')
               else None))"
| "parse_members 0 acc cs = None"
| "parse_members (Suc n) acc cs =
     (case skip_ws cs of
        [] \<Rightarrow> None
      | q # r \<Rightarrow>
          if q \<noteq> CHR 0x22 then None
          else
            (case parse_chars r of
               None \<Rightarrow> None
             | Some (k, r1) \<Rightarrow>
                 (case skip_ws r1 of
                    [] \<Rightarrow> None
                  | d # r2 \<Rightarrow>
                      if d \<noteq> CHR '':'' then None
                      else
                        (case parse_value n r2 of
                           None \<Rightarrow> None
                         | Some (v, r3) \<Rightarrow>
                             (case skip_ws r3 of
                                [] \<Rightarrow> None
                              | c # r4 \<Rightarrow>
                                  if c = CHR '','' then parse_members n (acc @ [(k, v)]) r4
                                  else if c = CHR ''}'' then Some (JObj (acc @ [(k, v)]), r4)
                                  else None)))))"

text \<open>The whole text is one value, with white space around it and nothing else.\<close>

definition parse_text :: "string \<Rightarrow> jsval option" where
  "parse_text cs =
     (case parse_value (Suc (length cs)) cs of
        None \<Rightarrow> None
      | Some (v, r) \<Rightarrow> if skip_ws r = [] then Some v else None)"

text \<open>
  \<^verbatim>\<open>JSON.stringify\<close>: a string is quoted with its quotes, backslashes and control
  characters escaped; a member whose value is \<^verbatim>\<open>undefined\<close> is left out of an object;
  \<^verbatim>\<open>undefined\<close> in an array is printed as \<^verbatim>\<open>null\<close>; \<^verbatim>\<open>JSON.stringify(undefined)\<close> is
  \<^verbatim>\<open>undefined\<close>, not a string.
\<close>

definition hex_digit :: "nat \<Rightarrow> char" where
  "hex_digit n = (if n < 10 then char_of (48 + n) else char_of (87 + n))"

definition escape :: "char \<Rightarrow> string" where
  "escape c =
     (if c = CHR 0x22 then [CHR 0x5C, CHR 0x22]
      else if c = CHR 0x5C then [CHR 0x5C, CHR 0x5C]
      else if c = CHR 0x08 then [CHR 0x5C, CHR ''b'']
      else if c = CHR 0x0C then [CHR 0x5C, CHR ''f'']
      else if c = CHR 0x0A then [CHR 0x5C, CHR ''n'']
      else if c = CHR 0x0D then [CHR 0x5C, CHR ''r'']
      else if c = CHR 0x09 then [CHR 0x5C, CHR ''t'']
      else if (of_char c :: nat) < 32
      then [CHR 0x5C, CHR ''u'', CHR ''0'', CHR ''0'',
            hex_digit (of_char c div 16), hex_digit (of_char c mod 16)]
      else [c])"

definition quote :: "string \<Rightarrow> string" where
  "quote s = CHR 0x22 # concat (map escape s) @ [CHR 0x22]"

fun stringify :: "jsval \<Rightarrow> string"
  and stringify_elements :: "jsval list \<Rightarrow> string list"
  and stringify_members :: "(string \<times> jsval) list \<Rightarrow> string list"
where
  "stringify JUndefined = ''null''"
| "stringify JNull = ''null''"
| "stringify (JBool b) = (if b then ''true'' else ''false'')"
| "stringify (JNum n) = show_int n"
| "stringify (JStr s) = quote s"
| "stringify (JArr xs) = ''['' @ join '','' (stringify_elements xs) @ '']''"
| "stringify (JObj fs) = ''{'' @ join '','' (stringify_members fs) @ ''}''"
| "stringify_elements [] = []"
| "stringify_elements (x # xs) = stringify x # stringify_elements xs"
| "stringify_members [] = []"
| "stringify_members ((k, v) # fs) =
     (if v = JUndefined then stringify_members fs
      else (quote k @ '':'' @ stringify v) # stringify_members fs)"

definition JSON_stringify :: "jsval \<Rightarrow> jsval" where
  "JSON_stringify v = (if v = JUndefined then JUndefined else JStr (stringify v))"

text \<open>
  \<^verbatim>\<open>JSON.parse(text)\<close> on the modelled subset: the argument is converted to a string,
  which may throw a TypeError, and the string is parsed, which may throw a SyntaxError.
\<close>

definition JSON_parse_model :: "jsval \<Rightarrow> jserr + jsval" where
  "JSON_parse_model text =
     (case toString text of
        None \<Rightarrow> Inl TypeError
      | Some cs \<Rightarrow>
          (case parse_text cs of
             None \<Rightarrow> Inl SyntaxError
           | Some v \<Rightarrow> Inr v))"

text \<open>
  The environment of the concrete runs: the JSON model, every random draw giving \<open>coin\<close>
  for \<^verbatim>\<open>Math.random() > 0.2\<close>, and every \<^verbatim>\<open>sendBatch\<close> call resolving iff \<open>ok\<close>.
\<close>

definition model_env :: "bool \<Rightarrow> bool \<Rightarrow> env" where
  "model_env coin ok =
     \<lparr>JSON_parse = JSON_parse_model, random_gt = (\<lambda>k. coin), sendBatch_ok = (\<lambda>k. ok)\<rparr>"

definition init :: state where
  "init = \<lparr>published = [], calls = [], randoms = 0, opens = 0, closes = 0, logs = [],
            res = None\<rparr>"


subsection \<open>Concrete messages and events\<close>

definition startTransfer_A_B_100 :: jsval where
  "startTransfer_A_B_100 =
     JStr ''{\"type\":\"StartTransfer\",\"fromAccount\":\"A\",\"toAccount\":\"B\",\"amount\":100}''"

definition startTransfer_amount_only :: jsval where
  "startTransfer_amount_only = JStr ''{\"type\":\"StartTransfer\",\"amount\":100}''"

definition startTransfer_amount_0 :: jsval where
  "startTransfer_amount_0 =
     JStr ''{\"type\":\"StartTransfer\",\"fromAccount\":\"A\",\"toAccount\":\"B\",\"amount\":0}''"

definition withdrawCompensation_A_100 :: jsval where
  "withdrawCompensation_A_100 =
     JStr ''{\"type\":\"WithdrawCompensation\",\"fromAccount\":\"A\",\"amount\":100}''"

definition startTransfer_unprintable :: jsval where
  "startTransfer_unprintable =
     JStr ''{\"type\":\"StartTransfer\",\"toAccount\":{\"toString\":1},\"amount\":100}''"

definition null_document :: jsval where
  "null_document = JStr ''null''"


section \<open>Shared lemmas\<close>

lemmas step_defs = sendBatch_def log_info_def log_error_def Let_def

lemma forOf_append:
  "forOf f s (xs @ ys) =
     (case forOf f s xs of
        Next s' \<Rightarrow> forOf f s' ys
      | Return s' \<Rightarrow> Return s'
      | Throw e s' \<Rightarrow> Throw e s')"
  by (induction xs arbitrary: s) (auto split: ctl.splits)

lemma forOf_snoc: "forOf f s xs = Next s1 \<Longrightarrow> forOf f s (xs @ [m]) = f s1 m"
  by (simp add: forOf_append split: ctl.splits)

lemma forOf_preserves:
  assumes "\<And>s m. g (the_state (f s m)) = g s"
  shows "g (the_state (forOf f s ms)) = g s"
proof (induction ms arbitrary: s)
  case Nil
  show ?case by simp
next
  case (Cons m ms)
  show ?case
  proof (cases "f s m")
    case (Next s')
    with assms [of s m] Cons [of s'] show ?thesis by simp
  next
    case (Return s')
    with assms [of s m] show ?thesis by simp
  next
    case (Throw e s')
    with assms [of s m] show ?thesis by simp
  qed
qed

lemma typed_not_nullish: "getp v k = JStr t \<Longrightarrow> \<not> nullish v"
  by (auto simp: nullish_def)

lemma truthy_field_not_nullish: "truthy (getp v k) \<Longrightarrow> \<not> nullish v"
  by (auto simp: nullish_def)

text \<open>What \<^verbatim>\<open>JSON.parse\<close> makes of the concrete message texts, in the model.\<close>

lemma parse_startTransfer_A_B_100:
  "JSON_parse_model startTransfer_A_B_100 =
     Inr (JObj [(''type'', JStr ''StartTransfer''), (''fromAccount'', JStr ''A''),
                 (''toAccount'', JStr ''B''), (''amount'', JNum 100)])"
  by code_simp

lemma parse_startTransfer_amount_only:
  "JSON_parse_model startTransfer_amount_only =
     Inr (JObj [(''type'', JStr ''StartTransfer''), (''amount'', JNum 100)])"
  by code_simp


lemma parse_withdrawCompensation_A_100:
  "JSON_parse_model withdrawCompensation_A_100 =
     Inr (JObj [(''type'', JStr ''WithdrawCompensation''), (''fromAccount'', JStr ''A''),
                 (''amount'', JNum 100)])"
  by code_simp

lemma parse_null_document: "JSON_parse_model null_document = Inr JNull"
  by code_simp

lemma truthy_messages:
  "truthy startTransfer_A_B_100" "truthy startTransfer_amount_only"
  "truthy startTransfer_amount_0" "truthy withdrawCompensation_A_100" "truthy null_document"
  "truthy startTransfer_unprintable"
  by (simp_all add: startTransfer_A_B_100_def startTransfer_amount_only_def
      startTransfer_amount_0_def withdrawCompensation_A_100_def null_document_def
      startTransfer_unprintable_def)

lemma model_env_simps:
  "JSON_parse (model_env coin ok) = JSON_parse_model"
  "random_gt (model_env coin ok) k = coin"
  "sendBatch_ok (model_env coin ok) k = ok"
  by (simp_all add: model_env_def)

section \<open>The Deposit Processor and a valid event\<close>

text \<open>
  A message that decodes to a StartTransfer event with truthy \<^verbatim>\<open>toAccount\<close> and
  \<^verbatim>\<open>amount\<close>, both of which can be converted to a string: when the iteration runs on it
  and its \<^verbatim>\<open>sendBatch\<close> call resolves, exactly one call with exactly one event is made.
\<close>

lemma depositMessage_valid:
  assumes "truthy message" and "JSON_parse env message = Inr ev"
    and "getp ev ''type'' = JStr ''StartTransfer''"
    and "truthy (getp ev ''toAccount'')" and "truthy (getp ev ''amount'')"
    and "toString (getp ev ''toAccount'') \<noteq> None" and "toString (getp ev ''amount'') \<noteq> None"
    and "sendBatch_ok env (length (calls s))"
  shows "\<exists>s'. depositMessage env s message = Next s' \<and>
           published s' =
             published s @
               [JObj [(''type'', JStr (if random_gt env (randoms s) then ''DepositCompleted''
                                       else ''DepositCompensation'')),
                      (''toAccount'', getp ev ''toAccount''), (''amount'', getp ev ''amount'')]] \<and>
           calls s' =
             calls s @
               [[JObj [(''type'', JStr (if random_gt env (randoms s) then ''DepositCompleted''
                                        else ''DepositCompensation'')),
                       (''toAccount'', getp ev ''toAccount''), (''amount'', getp ev ''amount'')]]]"
  using assms typed_not_nullish [of ev "''type''" "''StartTransfer''"]
  by (simp add: depositMessage_def step_defs)

lemma deposit_one_outcome_when_reached:
  assumes "forOf (depositMessage env) s0 pre = Next s1"
    and "truthy message" and "JSON_parse env message = Inr ev"
    and "getp ev ''type'' = JStr ''StartTransfer''"
    and "truthy (getp ev ''toAccount'')" and "truthy (getp ev ''amount'')"
    and "toString (getp ev ''toAccount'') \<noteq> None" and "toString (getp ev ''amount'') \<noteq> None"
    and "sendBatch_ok env (length (calls s1))"
  shows "\<exists>s2. forOf (depositMessage env) s0 (pre @ [message]) = Next s2 \<and>
           published s2 =
             published s1 @
               [JObj [(''type'', JStr (if random_gt env (randoms s1) then ''DepositCompleted''
                                       else ''DepositCompensation'')),
                      (''toAccount'', getp ev ''toAccount''), (''amount'', getp ev ''amount'')]] \<and>
           calls s2 =
             calls s1 @
               [[JObj [(''type'', JStr (if random_gt env (randoms s1) then ''DepositCompleted''
                                        else ''DepositCompensation'')),
                       (''toAccount'', getp ev ''toAccount''), (''amount'', getp ev ''amount'')]]]"
  using depositMessage_valid [OF assms(2-9)] forOf_snoc [OF assms(1), of message] by simp

text \<open>
  The two exceptions that leave the loop of the Deposit Processor: the destructuring of a
  document that is \<^verbatim>\<open>null\<close>, and the template literal of line 42 on a value that cannot
  be converted to a string.
\<close>

lemma depositMessage_null_document:
  assumes "truthy message" and "JSON_parse env message = Inr JNull"
  shows "depositMessage env s message = Throw TypeError s"
  using assms by (simp add: depositMessage_def nullish_def)

lemma depositMessage_unprintable:
  assumes "truthy message" and "JSON_parse env message = Inr ev"
    and "getp ev ''type'' = JStr ''StartTransfer''"
    and "truthy (getp ev ''toAccount'')" and "truthy (getp ev ''amount'')"
    and "toString (getp ev ''toAccount'') = None \<or> toString (getp ev ''amount'') = None"
  shows "depositMessage env s message = Throw TypeError s"
  using assms typed_not_nullish [of ev "''type''" "''StartTransfer''"]
  by (auto simp add: depositMessage_def Let_def)

lemma parse_startTransfer_unprintable:
  "JSON_parse_model startTransfer_unprintable =
     Inr (JObj [(''type'', JStr ''StartTransfer''),
                (''toAccount'', JObj [(''toString'', JNum 1)]), (''amount'', JNum 100)])"
  by code_simp

text \<open>
  C1. The claim does not hold of the code. Let a message decode to a StartTransfer event
  with truthy \<^verbatim>\<open>toAccount\<close> and \<^verbatim>\<open>amount\<close>.
  \<^item> When both fields can be converted to a string, the iteration that runs on the message,
    with a \<^verbatim>\<open>sendBatch\<close> call that resolves, publishes exactly one outcome event:
    DepositCompleted when the draw succeeds and DepositCompensation otherwise, with the
    \<^verbatim>\<open>toAccount\<close> and \<^verbatim>\<open>amount\<close> of the event.
  \<^item> When one of the two fields cannot be converted to a string, the template literal of
    line 42 throws: the handler logs the error of the batch and ends with no
    \<^verbatim>\<open>sendBatch\<close> call, so the event has no outcome.
  \<^item> When the message stands after a truthy message that \<^verbatim>\<open>JSON.parse\<close> turns into
    \<^verbatim>\<open>null\<close>, the destructuring of line 31 throws on that earlier message: the handler
    ends there, the event is never processed and has no outcome.
\<close>

theorem deposit_valid_event_without_outcome:
  assumes "truthy message" and "JSON_parse env message = Inr ev"
    and "getp ev ''type'' = JStr ''StartTransfer''"
    and "truthy (getp ev ''toAccount'')" and "truthy (getp ev ''amount'')"
  shows "(toString (getp ev ''toAccount'') \<noteq> None \<and> toString (getp ev ''amount'') \<noteq> None \<and>
          sendBatch_ok env (length (calls s)) \<longrightarrow>
            (\<exists>s'. depositMessage env s message = Next s' \<and>
               published s' =
                 published s @
                   [JObj [(''type'', JStr (if random_gt env (randoms s) then ''DepositCompleted''
                                           else ''DepositCompensation'')),
                          (''toAccount'', getp ev ''toAccount''),
                          (''amount'', getp ev ''amount'')]])) \<and>
         (toString (getp ev ''toAccount'') = None \<or> toString (getp ev ''amount'') = None \<longrightarrow>
            eventHubTrigger_DepositFunds env s (Some (message # rest)) =
              close (log_error (newProducerClient s)
                       ''DepositFunds: Error processing messages:'' [E TypeError])) \<and>
         (truthy poison \<and> JSON_parse env poison = Inr JNull \<longrightarrow>
            eventHubTrigger_DepositFunds env s (Some (poison # message # rest)) =
              close (log_error (newProducerClient s)
                       ''DepositFunds: Error processing messages:'' [E TypeError]))"
proof -
  have one: "\<exists>s'. depositMessage env s message = Next s' \<and>
      published s' =
        published s @
          [JObj [(''type'', JStr (if random_gt env (randoms s) then ''DepositCompleted''
                                  else ''DepositCompensation'')),
                 (''toAccount'', getp ev ''toAccount''), (''amount'', getp ev ''amount'')]]"
    if "toString (getp ev ''toAccount'') \<noteq> None" and "toString (getp ev ''amount'') \<noteq> None"
      and "sendBatch_ok env (length (calls s))"
    using depositMessage_valid [OF assms that] by blast
  have unprintable: "eventHubTrigger_DepositFunds env s (Some (message # rest)) =
      close (log_error (newProducerClient s)
               ''DepositFunds: Error processing messages:'' [E TypeError])"
    if "toString (getp ev ''toAccount'') = None \<or> toString (getp ev ''amount'') = None"
    by (simp add: eventHubTrigger_DepositFunds_def Let_def
        depositMessage_unprintable [OF assms that])
  have poisoned: "eventHubTrigger_DepositFunds env s (Some (poison # message # rest)) =
      close (log_error (newProducerClient s)
               ''DepositFunds: Error processing messages:'' [E TypeError])"
    if "truthy poison" and "JSON_parse env poison = Inr JNull"
    by (simp add: eventHubTrigger_DepositFunds_def Let_def depositMessage_null_document [OF that])
  from one unprintable poisoned show ?thesis by blast
qed

text \<open>
  The StartTransfer event from A to B with amount 100, alone in its batch, gets its
  DepositCompleted; after the message whose text is \<^verbatim>\<open>null\<close> it gets nothing, the handler
  ending with the error line of the batch and no \<^verbatim>\<open>sendBatch\<close> call. The StartTransfer
  event whose \<^verbatim>\<open>toAccount\<close> is the object with the one member \<^verbatim>\<open>toString\<close>, alone in its
  batch, gets nothing either.
\<close>

theorem deposit_valid_event_without_outcome_witness:
  "published (eventHubTrigger_DepositFunds (model_env True True) init
      (Some [startTransfer_A_B_100])) =
     [JObj [(''type'', JStr ''DepositCompleted''), (''toAccount'', JStr ''B''),
            (''amount'', JNum 100)]] \<and>
   eventHubTrigger_DepositFunds (model_env True True) init
      (Some (null_document # startTransfer_A_B_100 # [])) =
     init\<lparr>opens := 1, closes := 1,
          logs := [LogError ''DepositFunds: Error processing messages:'' [E TypeError]]\<rparr> \<and>
   eventHubTrigger_DepositFunds (model_env True True) init
      (Some (startTransfer_unprintable # [])) =
     init\<lparr>opens := 1, closes := 1,
          logs := [LogError ''DepositFunds: Error processing messages:'' [E TypeError]]\<rparr>"
proof -
  let ?env = "model_env True True"
  have alone: "published (eventHubTrigger_DepositFunds ?env init
      (Some [startTransfer_A_B_100])) =
     [JObj [(''type'', JStr ''DepositCompleted''), (''toAccount'', JStr ''B''),
            (''amount'', JNum 100)]]"
    by code_simp
  have parsed: "JSON_parse ?env startTransfer_A_B_100 =
      Inr (JObj [(''type'', JStr ''StartTransfer''), (''fromAccount'', JStr ''A''),
                 (''toAccount'', JStr ''B''), (''amount'', JNum 100)])"
    by (simp add: model_env_simps parse_startTransfer_A_B_100)
  have unparsed: "JSON_parse ?env startTransfer_unprintable =
      Inr (JObj [(''type'', JStr ''StartTransfer''),
                 (''toAccount'', JObj [(''toString'', JNum 1)]), (''amount'', JNum 100)])"
    by (simp add: model_env_simps parse_startTransfer_unprintable)
  have null: "JSON_parse ?env null_document = Inr JNull"
    by (simp add: model_env_simps parse_null_document)
  from deposit_valid_event_without_outcome
      [OF truthy_messages(1) parsed, where s = init and rest = "[]" and poison = null_document]
    deposit_valid_event_without_outcome
      [OF truthy_messages(6) unparsed, where s = init and rest = "[]" and poison = null_document]
    null truthy_messages(5) alone
  show ?thesis
    by (simp add: close_def log_error_def newProducerClient_def init_def)
qed

section \<open>The Withdraw Compensator and the wire format\<close>

lemma compensateWithdrawMessage_no_toAccount:
  assumes "truthy message" and "JSON_parse env message = Inr ev"
    and "getp ev ''type'' = JStr ''WithdrawCompensation''"
    and "getp ev ''toAccount'' = JUndefined"
  shows "compensateWithdrawMessage env s message =
           Next (log_error s ''CompensateWithdraw: Missing required properties in message:''
                   [V ev])"
  using assms typed_not_nullish [of ev "''type''" "''WithdrawCompensation''"]
  by (simp add: compensateWithdrawMessage_def Let_def)

text \<open>
  The sibling path: the Deposit Compensator accepts the event of its own type, whose account
  field is the \<^verbatim>\<open>toAccount\<close> it reads, and logs the reversal with that account and amount
  (both of which the log line converts to a string).
\<close>

lemma compensateDepositMessage_valid:
  assumes "truthy message" and "JSON_parse env message = Inr ev"
    and "getp ev ''type'' = JStr ''DepositCompensation''"
    and "truthy (getp ev ''toAccount'')" and "truthy (getp ev ''amount'')"
    and "toString (getp ev ''toAccount'') \<noteq> None" and "toString (getp ev ''amount'') \<noteq> None"
  shows "compensateDepositMessage env s message =
           Next (log_info s ''CompensateDeposit: Reverting deposit of ${amount} from ${toAccount}''
                   [V (getp ev ''amount''), V (getp ev ''toAccount'')])"
  using assms typed_not_nullish [of ev "''type''" "''DepositCompensation''"]
  by (simp add: compensateDepositMessage_def Let_def)

text \<open>
  C2. The claim does not hold of the code. A WithdrawCompensation event in the wire format
  carries \<^verbatim>\<open>fromAccount\<close> and \<^verbatim>\<open>amount\<close> and no \<^verbatim>\<open>toAccount\<close>; the Withdraw
  Compensator reads \<^verbatim>\<open>toAccount\<close>, finds it undefined, logs that required properties are
  missing and goes on to the next message: for a batch of that one message, the only effect
  of the handler is this error line, and no reversal is recorded.
\<close>

theorem compensateWithdraw_rejects_wire_format:
  assumes "truthy message" and "JSON_parse env message = Inr ev"
    and "getp ev ''type'' = JStr ''WithdrawCompensation''"
    and "truthy (getp ev ''fromAccount'')" and "truthy (getp ev ''amount'')"
    and "getp ev ''toAccount'' = JUndefined"
  shows "eventHubTrigger_CompensateWithdraw env s (Some [message]) =
           log_error s ''CompensateWithdraw: Missing required properties in message:'' [V ev]"
  by (simp add: eventHubTrigger_CompensateWithdraw_def
      compensateWithdrawMessage_no_toAccount [OF assms(1-3) assms(6)])

text \<open>
  End to end: on a StartTransfer event whose draw fails, the Withdraw Processor publishes a
  WithdrawCompensation event for account A and amount 100; serialised, that event is the
  message \<open>withdrawCompensation_A_100\<close>; the Withdraw Compensator answers it with the
  error line.
\<close>

theorem compensateWithdraw_rejects_wire_format_witness:
  "published (eventHubTrigger_WithdrawFunds (model_env False True) init
      (Some [startTransfer_A_B_100])) =
     [JObj [(''type'', JStr ''WithdrawCompensation''), (''fromAccount'', JStr ''A''),
            (''amount'', JNum 100)]] \<and>
   JSON_stringify (JObj [(''type'', JStr ''WithdrawCompensation''), (''fromAccount'', JStr ''A''),
                         (''amount'', JNum 100)]) = withdrawCompensation_A_100 \<and>
   eventHubTrigger_CompensateWithdraw (model_env False True) init
      (Some [withdrawCompensation_A_100]) =
     init\<lparr>logs := [LogError ''CompensateWithdraw: Missing required properties in message:''
                      [V (JObj [(''type'', JStr ''WithdrawCompensation''),
                                (''fromAccount'', JStr ''A''), (''amount'', JNum 100)])]]\<rparr>"
proof -
  have emitted: "published (eventHubTrigger_WithdrawFunds (model_env False True) init
      (Some [startTransfer_A_B_100])) =
     [JObj [(''type'', JStr ''WithdrawCompensation''), (''fromAccount'', JStr ''A''),
            (''amount'', JNum 100)]]"
    by code_simp
  have wire: "JSON_stringify (JObj [(''type'', JStr ''WithdrawCompensation''),
      (''fromAccount'', JStr ''A''), (''amount'', JNum 100)]) = withdrawCompensation_A_100"
    by code_simp
  have parsed: "JSON_parse (model_env False True) withdrawCompensation_A_100 =
      Inr (JObj [(''type'', JStr ''WithdrawCompensation''), (''fromAccount'', JStr ''A''),
                  (''amount'', JNum 100)])"
    by (simp add: model_env_simps parse_withdrawCompensation_A_100)
  from compensateWithdraw_rejects_wire_format [OF truthy_messages(4) parsed, of init]
  have "eventHubTrigger_CompensateWithdraw (model_env False True) init
      (Some [withdrawCompensation_A_100]) =
     log_error init ''CompensateWithdraw: Missing required properties in message:''
       [V (JObj [(''type'', JStr ''WithdrawCompensation''), (''fromAccount'', JStr ''A''),
                 (''amount'', JNum 100)])]"
    by simp
  with emitted wire show ?thesis
    by (simp add: log_error_def init_def)
qed

section \<open>Validation failures in the Withdraw Processor\<close>

lemma withdrawMessage_invalid:
  assumes "truthy message" and "JSON_parse env message = Inr ev"
    and "getp ev ''type'' = JStr ''StartTransfer''"
    and "\<not> truthy (getp ev ''fromAccount'') \<or> \<not> truthy (getp ev ''amount'')"
  shows "withdrawMessage env s message =
           Return (log_error s ''WithdrawFunds: Missing required properties in message:''
                     [V message])"
  using assms typed_not_nullish [of ev "''type''" "''StartTransfer''"]
  by (auto simp add: withdrawMessage_def Let_def)

lemma depositMessage_invalid:
  assumes "truthy message" and "JSON_parse env message = Inr ev"
    and "getp ev ''type'' = JStr ''StartTransfer''"
    and "\<not> truthy (getp ev ''toAccount'') \<or> \<not> truthy (getp ev ''amount'')"
  shows "depositMessage env s message =
           Next (log_error s ''DepositFunds: Missing required properties in message:'' [V ev])"
  using assms typed_not_nullish [of ev "''type''" "''StartTransfer''"]
  by (auto simp add: depositMessage_def Let_def)

text \<open>
  What every consumer does contain: a falsy message and a text that \<^verbatim>\<open>JSON.parse\<close>
  rejects are logged, and the loop goes on with the messages that follow.
\<close>

lemma falsy_message_is_skipped:
  assumes "\<not> truthy message"
  shows "forOf (depositMessage env) s (message # siblings) =
           forOf (depositMessage env)
             (log_error s ''DepositFunds: Invalid or undefined message body:'' [V message]) siblings"
    and "forOf (withdrawMessage env) s (message # siblings) =
           forOf (withdrawMessage env)
             (log_error s ''WithdrawFunds: Invalid or undefined message body:'' [V message]) siblings"
    and "forOf (compensateDepositMessage env) s (message # siblings) =
           forOf (compensateDepositMessage env)
             (log_error s ''CompensateDeposit: Invalid or undefined message body:'' [V message])
             siblings"
    and "forOf (compensateWithdrawMessage env) s (message # siblings) =
           forOf (compensateWithdrawMessage env)
             (log_error s ''CompensateWithdraw: Invalid or undefined message body:'' [V message])
             siblings"
  using assms
  by (simp_all add: depositMessage_def withdrawMessage_def compensateDepositMessage_def
      compensateWithdrawMessage_def)

lemma malformed_message_is_skipped:
  assumes "truthy message" and "JSON_parse env message = Inl err"
  shows "forOf (depositMessage env) s (message # siblings) =
           forOf (depositMessage env)
             (log_error s ''DepositFunds: Error parsing message:'' [E err]) siblings"
    and "forOf (withdrawMessage env) s (message # siblings) =
           forOf (withdrawMessage env)
             (log_error s ''WithdrawFunds: Error parsing message:'' [E err]) siblings"
    and "forOf (compensateDepositMessage env) s (message # siblings) =
           forOf (compensateDepositMessage env)
             (log_error s ''CompensateDeposit: Error parsing message:'' [E err]) siblings"
    and "forOf (compensateWithdrawMessage env) s (message # siblings) =
           forOf (compensateWithdrawMessage env)
             (log_error s ''CompensateWithdraw: Error parsing message:'' [E err]) siblings"
  using assms
  by (simp_all add: depositMessage_def withdrawMessage_def compensateDepositMessage_def
      compensateWithdrawMessage_def)

text \<open>
  A message whose JSON document is \<^verbatim>\<open>null\<close> is truthy and parses, and the destructuring
  then throws outside the inner \<^verbatim>\<open>try\<close> blocks: the loop of every consumer ends there,
  whatever messages follow.
\<close>

lemma null_document_aborts:
  assumes "truthy message" and "JSON_parse env message = Inr JNull"
  shows "forOf (depositMessage env) s (message # siblings) = Throw TypeError s"
    and "forOf (withdrawMessage env) s (message # siblings) = Throw TypeError s"
    and "forOf (compensateDepositMessage env) s (message # siblings) = Throw TypeError s"
    and "forOf (compensateWithdrawMessage env) s (message # siblings) = Throw TypeError s"
  using assms
  by (simp_all add: depositMessage_def withdrawMessage_def compensateDepositMessage_def
      compensateWithdrawMessage_def nullish_def)

lemma null_document_aborts_deposit_batch:
  "eventHubTrigger_DepositFunds (model_env True True) init
     (Some [null_document, startTransfer_A_B_100]) =
   init\<lparr>opens := 1, closes := 1,
        logs := [LogError ''DepositFunds: Error processing messages:'' [E TypeError]]\<rparr>"
  by code_simp

text \<open>
  C3. The claim does not hold of the code. In the Withdraw Processor, a StartTransfer message
  that fails the required-field validation ends the handler: whatever messages follow it in
  the batch, the result is the state with the one error line of that message and the producer
  closed, so no sibling is processed and nothing is published for them.
\<close>

theorem withdraw_validation_failure_drops_siblings:
  assumes "truthy message" and "JSON_parse env message = Inr ev"
    and "getp ev ''type'' = JStr ''StartTransfer''"
    and "\<not> truthy (getp ev ''fromAccount'') \<or> \<not> truthy (getp ev ''amount'')"
  shows "eventHubTrigger_WithdrawFunds env s (Some (message # siblings)) =
           close (log_error (newProducerClient s)
                    ''WithdrawFunds: Missing required properties in message:'' [V message])"
  by (simp add: eventHubTrigger_WithdrawFunds_def Let_def withdrawMessage_invalid [OF assms])

text \<open>
  The batch of a StartTransfer event without accounts followed by a valid one: the Withdraw
  Processor makes no \<^verbatim>\<open>sendBatch\<close> call at all, although it publishes WithdrawCompleted
  for the valid event when that event comes alone, and although the Deposit Processor, on the
  same batch, skips the first message and publishes DepositCompleted for the second.
\<close>

theorem withdraw_validation_failure_drops_siblings_witness:
  "eventHubTrigger_WithdrawFunds (model_env True True) init
      (Some [startTransfer_amount_only, startTransfer_A_B_100]) =
     init\<lparr>opens := 1, closes := 1,
          logs := [LogError ''WithdrawFunds: Missing required properties in message:''
                     [V startTransfer_amount_only]]\<rparr> \<and>
   published (eventHubTrigger_WithdrawFunds (model_env True True) init
      (Some [startTransfer_A_B_100])) =
     [JObj [(''type'', JStr ''WithdrawCompleted''), (''fromAccount'', JStr ''A''),
            (''amount'', JNum 100)]] \<and>
   published (eventHubTrigger_DepositFunds (model_env True True) init
      (Some [startTransfer_amount_only, startTransfer_A_B_100])) =
     [JObj [(''type'', JStr ''DepositCompleted''), (''toAccount'', JStr ''B''),
            (''amount'', JNum 100)]]"
proof -
  have parsed: "JSON_parse (model_env True True) startTransfer_amount_only =
      Inr (JObj [(''type'', JStr ''StartTransfer''), (''amount'', JNum 100)])"
    by (simp add: model_env_simps parse_startTransfer_amount_only)
  from withdraw_validation_failure_drops_siblings
    [OF truthy_messages(2) parsed, of init "[startTransfer_A_B_100]"]
  have "eventHubTrigger_WithdrawFunds (model_env True True) init
      (Some [startTransfer_amount_only, startTransfer_A_B_100]) =
     close (log_error (newProducerClient init)
              ''WithdrawFunds: Missing required properties in message:''
              [V startTransfer_amount_only])"
    by simp
  moreover have "published (eventHubTrigger_WithdrawFunds (model_env True True) init
      (Some [startTransfer_A_B_100])) =
     [JObj [(''type'', JStr ''WithdrawCompleted''), (''fromAccount'', JStr ''A''),
            (''amount'', JNum 100)]]"
    by code_simp
  moreover have "published (eventHubTrigger_DepositFunds (model_env True True) init
      (Some [startTransfer_amount_only, startTransfer_A_B_100])) =
     [JObj [(''type'', JStr ''DepositCompleted''), (''toAccount'', JStr ''B''),
            (''amount'', JNum 100)]]"
    by code_simp
  ultimately show ?thesis
    by (simp add: close_def log_error_def newProducerClient_def init_def)
qed

text \<open>
  C4. In the Withdraw Processor, a StartTransfer message that fails the required-field
  validation (\<^verbatim>\<open>fromAccount\<close> or \<^verbatim>\<open>amount\<close> falsy) makes the handler return: the
  iteration ends with \<open>Return\<close>, the messages \<open>rest\<close> after it have no effect on the loop
  or on the handler's result, whatever messages \<open>pre\<close> stand before it. The Deposit
  Processor, on a message that fails its validation, logs and goes on with \<open>rest\<close>.
\<close>

theorem withdraw_returns_on_missing_fields:
  assumes "truthy message" and "JSON_parse env message = Inr ev"
    and "getp ev ''type'' = JStr ''StartTransfer''"
    and "\<not> truthy (getp ev ''fromAccount'') \<or> \<not> truthy (getp ev ''amount'')"
  shows "forOf (withdrawMessage env) s1 (message # rest) =
           Return (log_error s1 ''WithdrawFunds: Missing required properties in message:''
                     [V message]) \<and>
         forOf (withdrawMessage env) s (pre @ message # rest) =
           forOf (withdrawMessage env) s (pre @ [message]) \<and>
         eventHubTrigger_WithdrawFunds env s (Some (pre @ message # rest)) =
           eventHubTrigger_WithdrawFunds env s (Some (pre @ [message])) \<and>
         (\<not> truthy (getp ev ''toAccount'') \<or> \<not> truthy (getp ev ''amount'') \<longrightarrow>
            forOf (depositMessage env) s1 (message # rest) =
              forOf (depositMessage env)
                (log_error s1 ''DepositFunds: Missing required properties in message:'' [V ev])
                rest)"
proof -
  note ret = withdrawMessage_invalid [OF assms]
  have loop: "forOf (withdrawMessage env) s' (pre @ message # rest) =
      forOf (withdrawMessage env) s' (pre @ [message])" for s'
    by (simp add: forOf_append ret split: ctl.split)
  show ?thesis
    by (simp add: ret loop eventHubTrigger_WithdrawFunds_def
        depositMessage_invalid [OF assms(1-3)])
qed

text \<open>
  A null message, the StartTransfer event without accounts, then a valid event: the Withdraw
  Processor ends at the second message and makes no \<^verbatim>\<open>sendBatch\<close> call; the Deposit
  Processor goes on and publishes for the third.
\<close>

theorem withdraw_returns_on_missing_fields_witness:
  "forOf (withdrawMessage (model_env True True)) init
      (startTransfer_amount_only # [startTransfer_A_B_100]) =
     Return (log_error init ''WithdrawFunds: Missing required properties in message:''
               [V startTransfer_amount_only]) \<and>
   eventHubTrigger_WithdrawFunds (model_env True True) init
      (Some ([JNull] @ startTransfer_amount_only # [startTransfer_A_B_100])) =
     eventHubTrigger_WithdrawFunds (model_env True True) init
      (Some ([JNull] @ [startTransfer_amount_only])) \<and>
   calls (eventHubTrigger_WithdrawFunds (model_env True True) init
      (Some ([JNull] @ [startTransfer_amount_only]))) = [] \<and>
   forOf (depositMessage (model_env True True)) init
      (startTransfer_amount_only # [startTransfer_A_B_100]) =
     forOf (depositMessage (model_env True True))
       (log_error init ''DepositFunds: Missing required properties in message:''
          [V (JObj [(''type'', JStr ''StartTransfer''), (''amount'', JNum 100)])])
       [startTransfer_A_B_100] \<and>
   published (the_state (forOf (depositMessage (model_env True True)) init
      (startTransfer_amount_only # [startTransfer_A_B_100]))) =
     [JObj [(''type'', JStr ''DepositCompleted''), (''toAccount'', JStr ''B''),
            (''amount'', JNum 100)]]"
proof -
  have parsed: "JSON_parse (model_env True True) startTransfer_amount_only =
      Inr (JObj [(''type'', JStr ''StartTransfer''), (''amount'', JNum 100)])"
    by (simp add: model_env_simps parse_startTransfer_amount_only)
  have none: "calls (eventHubTrigger_WithdrawFunds (model_env True True) init
      (Some ([JNull] @ [startTransfer_amount_only]))) = []"
    by code_simp
  have dep: "published (the_state (forOf (depositMessage (model_env True True)) init
      (startTransfer_amount_only # [startTransfer_A_B_100]))) =
     [JObj [(''type'', JStr ''DepositCompleted''), (''toAccount'', JStr ''B''),
            (''amount'', JNum 100)]]"
    by code_simp
  from withdraw_returns_on_missing_fields
    [OF truthy_messages(2) parsed, of init "[startTransfer_A_B_100]" init "[JNull]"]
    none dep
  show ?thesis by simp
qed

section \<open>Decoding\<close>
















section \<open>The transfer initiator\<close>

text \<open>
  C6. The claim does not hold of the code for a request without a body. For every request
  in which one of \<^verbatim>\<open>fromAccount\<close>, \<^verbatim>\<open>toAccount\<close>, \<^verbatim>\<open>amount\<close> is missing or falsy, the
  Initiator makes no \<^verbatim>\<open>sendBatch\<close> call and nothing reaches the bus. When the request has a
  body, the Initiator logs and responds with status 400. When the body is \<^verbatim>\<open>undefined\<close> or
  \<^verbatim>\<open>null\<close>, the destructuring of line 13 throws before the check: the handler ends with a
  TypeError, and no response is set.
\<close>

theorem httpTrigger_missing_field:
  assumes "\<not> truthy (getp req_body ''fromAccount'') \<or> \<not> truthy (getp req_body ''toAccount'') \<or>
           \<not> truthy (getp req_body ''amount'')"
  shows "calls (snd (httpTrigger env s req_body)) = calls s \<and>
         published (snd (httpTrigger env s req_body)) = published s \<and>
         httpTrigger env s req_body =
           (if nullish req_body then (Some TypeError, s)
            else (None, (log_error s ''ClientFunction: Missing required properties in message:''
                           [V req_body])
                        \<lparr>res := Some \<lparr>res_status = 400, res_body = MissingProperties\<rparr>\<rparr>))"
  using assms by (auto simp add: httpTrigger_def Let_def log_error_def)

text \<open>
  A request without a body, and a request whose body has the two accounts and no amount.
\<close>

theorem httpTrigger_missing_field_witness:
  "httpTrigger (model_env True True) init JUndefined = (Some TypeError, init) \<and>
   res init = None \<and>
   httpTrigger (model_env True True) init
     (JObj [(''fromAccount'', JStr ''A''), (''toAccount'', JStr ''B'')]) =
     (None, init\<lparr>logs := [LogError ''ClientFunction: Missing required properties in message:''
                             [V (JObj [(''fromAccount'', JStr ''A''), (''toAccount'', JStr ''B'')])]],
                  res := Some \<lparr>res_status = 400, res_body = MissingProperties\<rparr>\<rparr>)"
  using httpTrigger_missing_field [of JUndefined "model_env True True" init]
    httpTrigger_missing_field
      [of "JObj [(''fromAccount'', JStr ''A''), (''toAccount'', JStr ''B'')]"
          "model_env True True" init]
  by (simp add: nullish_def log_error_def init_def)

text \<open>
  C7. For every request in which \<^verbatim>\<open>fromAccount\<close>, \<^verbatim>\<open>toAccount\<close> and \<^verbatim>\<open>amount\<close> are all
  truthy, the Initiator returns normally after exactly one \<^verbatim>\<open>sendBatch\<close> call, whose
  argument is the single StartTransfer event carrying the three fields. When the call
  resolves, the response has status 202 and the event is on the bus; when it rejects, the
  response has status 500, nothing is on the bus, and no second call is made.
\<close>

theorem httpTrigger_valid_request:
  assumes "truthy (getp req_body ''fromAccount'')" and "truthy (getp req_body ''toAccount'')"
    and "truthy (getp req_body ''amount'')"
  shows "\<exists>s'. httpTrigger env s req_body = (None, s') \<and>
           calls s' = calls s @ [[JObj [(''type'', JStr ''StartTransfer''),
                                        (''fromAccount'', getp req_body ''fromAccount''),
                                        (''toAccount'', getp req_body ''toAccount''),
                                        (''amount'', getp req_body ''amount'')]]] \<and>
           (if sendBatch_ok env (length (calls s))
            then res s' = Some \<lparr>res_status = 202, res_body = TransactionStarted\<rparr> \<and>
                 published s' = published s @ [JObj [(''type'', JStr ''StartTransfer''),
                                        (''fromAccount'', getp req_body ''fromAccount''),
                                        (''toAccount'', getp req_body ''toAccount''),
                                        (''amount'', getp req_body ''amount'')]]
            else res s' = Some \<lparr>res_status = 500, res_body = StartFailed\<rparr> \<and>
                 published s' = published s)"
  using assms truthy_field_not_nullish [OF assms(1)]
  by (simp add: httpTrigger_def step_defs)

text \<open>
  The request of the spec's scenario, from A to B, amount 100: once with the bus accepting
  the event, once with the bus refusing it.
\<close>

theorem httpTrigger_valid_request_witness:
  "fst (httpTrigger (model_env True True) init
     (JObj [(''fromAccount'', JStr ''A''), (''toAccount'', JStr ''B''), (''amount'', JNum 100)])) =
     None \<and>
   calls (snd (httpTrigger (model_env True True) init
     (JObj [(''fromAccount'', JStr ''A''), (''toAccount'', JStr ''B''), (''amount'', JNum 100)]))) =
     [[JObj [(''type'', JStr ''StartTransfer''), (''fromAccount'', JStr ''A''),
             (''toAccount'', JStr ''B''), (''amount'', JNum 100)]]] \<and>
   res (snd (httpTrigger (model_env True True) init
     (JObj [(''fromAccount'', JStr ''A''), (''toAccount'', JStr ''B''), (''amount'', JNum 100)]))) =
     Some \<lparr>res_status = 202, res_body = TransactionStarted\<rparr> \<and>
   published (snd (httpTrigger (model_env True True) init
     (JObj [(''fromAccount'', JStr ''A''), (''toAccount'', JStr ''B''), (''amount'', JNum 100)]))) =
     [JObj [(''type'', JStr ''StartTransfer''), (''fromAccount'', JStr ''A''),
            (''toAccount'', JStr ''B''), (''amount'', JNum 100)]] \<and>
   fst (httpTrigger (model_env True False) init
     (JObj [(''fromAccount'', JStr ''A''), (''toAccount'', JStr ''B''), (''amount'', JNum 100)])) =
     None \<and>
   calls (snd (httpTrigger (model_env True False) init
     (JObj [(''fromAccount'', JStr ''A''), (''toAccount'', JStr ''B''), (''amount'', JNum 100)]))) =
     [[JObj [(''type'', JStr ''StartTransfer''), (''fromAccount'', JStr ''A''),
             (''toAccount'', JStr ''B''), (''amount'', JNum 100)]]] \<and>
   res (snd (httpTrigger (model_env True False) init
     (JObj [(''fromAccount'', JStr ''A''), (''toAccount'', JStr ''B''), (''amount'', JNum 100)]))) =
     Some \<lparr>res_status = 500, res_body = StartFailed\<rparr> \<and>
   published (snd (httpTrigger (model_env True False) init
     (JObj [(''fromAccount'', JStr ''A''), (''toAccount'', JStr ''B''), (''amount'', JNum 100)]))) =
     []"
proof -
  let ?body = "JObj [(''fromAccount'', JStr ''A''), (''toAccount'', JStr ''B''),
                     (''amount'', JNum 100)]"
  have fields: "truthy (getp ?body ''fromAccount'')" "truthy (getp ?body ''toAccount'')"
    "truthy (getp ?body ''amount'')"
    by simp_all
  from httpTrigger_valid_request [OF fields, of "model_env True True" init]
    httpTrigger_valid_request [OF fields, of "model_env True False" init]
  show ?thesis
    by (auto simp add: model_env_simps init_def)
qed

text \<open>
  C9. For a request whose body is absent, the Initiator sets no response: the destructuring
  of line 13 throws a TypeError and the handler ends with it, the state unchanged (no log
  line, no \<^verbatim>\<open>sendBatch\<close> call, \<^verbatim>\<open>context.res\<close> untouched). The same holds of a body that
  is \<^verbatim>\<open>null\<close>. So whenever the handler returns normally, with the 400 response or any
  other, a body was present.
\<close>

theorem httpTrigger_absent_body:
  "httpTrigger env s JUndefined = (Some TypeError, s) \<and>
   httpTrigger env s JNull = (Some TypeError, s) \<and>
   (\<forall>req_body s'. httpTrigger env s req_body = (None, s') \<longrightarrow> \<not> nullish req_body)"
  by (auto simp add: httpTrigger_def nullish_def)

text \<open>
  The absent body against the empty object: the first throws and leaves \<^verbatim>\<open>context.res\<close>
  unset, the second gets the 400 response.
\<close>

theorem httpTrigger_absent_body_witness:
  "httpTrigger (model_env True True) init JUndefined = (Some TypeError, init) \<and>
   res (snd (httpTrigger (model_env True True) init JUndefined)) = None \<and>
   fst (httpTrigger (model_env True True) init (JObj [])) = None \<and>
   res (snd (httpTrigger (model_env True True) init (JObj []))) =
     Some \<lparr>res_status = 400, res_body = MissingProperties\<rparr> \<and>
   \<not> nullish (JObj [])"
proof -
  have present: "httpTrigger (model_env True True) init (JObj []) =
      (None, (log_error init ''ClientFunction: Missing required properties in message:''
                [V (JObj [])])
             \<lparr>res := Some \<lparr>res_status = 400, res_body = MissingProperties\<rparr>\<rparr>)"
    by (simp add: httpTrigger_def nullish_def)
  from httpTrigger_absent_body [of "model_env True True" init] present
  show ?thesis
    by (auto simp add: init_def)
qed

section \<open>The producer handle\<close>

lemma depositMessage_opens: "opens (the_state (depositMessage env s m)) = opens s"
  by (simp add: depositMessage_def step_defs split: sum.split)

lemma depositMessage_closes: "closes (the_state (depositMessage env s m)) = closes s"
  by (simp add: depositMessage_def step_defs split: sum.split)

lemma withdrawMessage_opens: "opens (the_state (withdrawMessage env s m)) = opens s"
  by (simp add: withdrawMessage_def step_defs split: sum.split)

lemma withdrawMessage_closes: "closes (the_state (withdrawMessage env s m)) = closes s"
  by (simp add: withdrawMessage_def step_defs split: sum.split)

lemma handler_end:
  "opens (close (case r of Next s' \<Rightarrow> s' | Return s' \<Rightarrow> s' | Throw e s' \<Rightarrow> log_error s' msg [E e])) =
     opens (the_state r)"
  "closes (close (case r of Next s' \<Rightarrow> s' | Return s' \<Rightarrow> s' | Throw e s' \<Rightarrow> log_error s' msg [E e])) =
     Suc (closes (the_state r))"
  by (cases r; simp add: close_def log_error_def)+

text \<open>
  C8. Every invocation of the Deposit Processor and of the Withdraw Processor, on every
  batch (iterable or not) and in every environment, constructs one producer client and calls
  \<^verbatim>\<open>close()\<close> once: however the loop ends (all messages done, the \<^verbatim>\<open>return\<close> of the
  Withdraw Processor, a \<^verbatim>\<open>sendBatch\<close> that rejects, an exception thrown in the loop), the
  handle acquired at the start is released.
\<close>

theorem producer_released_on_every_path:
  "opens (eventHubTrigger_DepositFunds env s batch) = Suc (opens s) \<and>
   closes (eventHubTrigger_DepositFunds env s batch) = Suc (closes s) \<and>
   opens (eventHubTrigger_WithdrawFunds env s batch) = Suc (opens s) \<and>
   closes (eventHubTrigger_WithdrawFunds env s batch) = Suc (closes s)"
proof -
  have d: "opens (the_state (forOf (depositMessage env) s' ms)) = opens s'"
    "closes (the_state (forOf (depositMessage env) s' ms)) = closes s'" for s' ms
    by (rule forOf_preserves, rule depositMessage_opens)
       (rule forOf_preserves, rule depositMessage_closes)
  have w: "opens (the_state (forOf (withdrawMessage env) s' ms)) = opens s'"
    "closes (the_state (forOf (withdrawMessage env) s' ms)) = closes s'" for s' ms
    by (rule forOf_preserves, rule withdrawMessage_opens)
       (rule forOf_preserves, rule withdrawMessage_closes)
  show ?thesis
  proof (cases batch)
    case None
    then show ?thesis
      by (simp add: eventHubTrigger_DepositFunds_def eventHubTrigger_WithdrawFunds_def
          newProducerClient_def close_def log_error_def)
  next
    case (Some ms)
    then show ?thesis
      by (simp add: eventHubTrigger_DepositFunds_def eventHubTrigger_WithdrawFunds_def
          Let_def handler_end d w newProducerClient_def)
  qed
qed

text \<open>
  Four ways out of the loop, each ending with one client constructed and one \<^verbatim>\<open>close()\<close>:
  a batch done to its end, with a \<^verbatim>\<open>sendBatch\<close> that rejects; the \<^verbatim>\<open>return\<close> of the
  Withdraw Processor; the TypeError of a null document; a batch that cannot be iterated.
\<close>

theorem producer_released_on_every_path_witness:
  "forOf (depositMessage (model_env True False)) (newProducerClient init)
     [startTransfer_A_B_100] =
     Next (init\<lparr>calls := [[JObj [(''type'', JStr ''DepositCompleted''),
                                  (''toAccount'', JStr ''B''), (''amount'', JNum 100)]]],
                randoms := 1, opens := 1,
                logs := [LogInfo ''DepositFunds: Initiating deposit of ${amount} to ${toAccount}''
                           [V (JNum 100), V (JStr ''B'')],
                         LogError ''DepositFunds: Error sending event for account ${toAccount}:''
                           [V (JStr ''B''), E BusError]]\<rparr>) \<and>
   closes (eventHubTrigger_DepositFunds (model_env True False) init
     (Some [startTransfer_A_B_100])) = 1 \<and>
   forOf (withdrawMessage (model_env True True)) (newProducerClient init)
     [startTransfer_amount_only, startTransfer_A_B_100] =
     Return (init\<lparr>opens := 1,
                  logs := [LogError ''WithdrawFunds: Missing required properties in message:''
                             [V startTransfer_amount_only]]\<rparr>) \<and>
   closes (eventHubTrigger_WithdrawFunds (model_env True True) init
     (Some [startTransfer_amount_only, startTransfer_A_B_100])) = 1 \<and>
   forOf (depositMessage (model_env True True)) (newProducerClient init)
     [null_document, startTransfer_A_B_100] = Throw TypeError (init\<lparr>opens := 1\<rparr>) \<and>
   closes (eventHubTrigger_DepositFunds (model_env True True) init
     (Some [null_document, startTransfer_A_B_100])) = 1 \<and>
   closes (eventHubTrigger_WithdrawFunds (model_env True True) init None) = 1 \<and>
   opens (eventHubTrigger_WithdrawFunds (model_env True True) init None) = 1"
proof -
  have paths: "forOf (depositMessage (model_env True False)) (newProducerClient init)
     [startTransfer_A_B_100] =
     Next (init\<lparr>calls := [[JObj [(''type'', JStr ''DepositCompleted''),
                                  (''toAccount'', JStr ''B''), (''amount'', JNum 100)]]],
                randoms := 1, opens := 1,
                logs := [LogInfo ''DepositFunds: Initiating deposit of ${amount} to ${toAccount}''
                           [V (JNum 100), V (JStr ''B'')],
                         LogError ''DepositFunds: Error sending event for account ${toAccount}:''
                           [V (JStr ''B''), E BusError]]\<rparr>)"
    "forOf (withdrawMessage (model_env True True)) (newProducerClient init)
     [startTransfer_amount_only, startTransfer_A_B_100] =
     Return (init\<lparr>opens := 1,
                  logs := [LogError ''WithdrawFunds: Missing required properties in message:''
                             [V startTransfer_amount_only]]\<rparr>)"
    "forOf (depositMessage (model_env True True)) (newProducerClient init)
     [null_document, startTransfer_A_B_100] = Throw TypeError (init\<lparr>opens := 1\<rparr>)"
    by code_simp+
  from paths
    producer_released_on_every_path
      [of "model_env True False" init "Some [startTransfer_A_B_100]"]
    producer_released_on_every_path
      [of "model_env True True" init "Some [startTransfer_amount_only, startTransfer_A_B_100]"]
    producer_released_on_every_path
      [of "model_env True True" init "Some [null_document, startTransfer_A_B_100]"]
    producer_released_on_every_path [of "model_env True True" init None]
  show ?thesis
    by (simp add: init_def)
qed

section \<open>Presence is truthiness\<close>



end
